theory Spec2Isabelle
  imports Complex_Main
begin

section \<open>Rolling-window volatility estimation of the SX5E base GBM notebook\<close>

text \<open>
  The code verified here is the parameter-estimation cell of
  \<^verbatim>\<open>Code/SX5E - Base GBM Model (Sigma for Different Lookback).ipynb\<close>:
  \<^verbatim>\<open>
  dt = 1/252
  M = [21, 63, 252]
  for M_value in M:
      sigma = np.zeros(len(actual_dates), dtype=np.float32)
      for i, date in enumerate(actual_dates):
          date_index = S_all.loc[S_all['Date'] == date].index[0]
          history_data = list(S_all.iloc[date_index-M_value:date_index, ]['Adj Close'])
          log_history_data = np.log(history_data)
          log_return = log_history_data[1:] - log_history_data[:-1]
          sigma[i] = np.std(log_return) / np.sqrt(dt)
  \<close>
  Numbers: a NumPy float is modelled as a real number or one of the three special
  values of IEEE-754 (\<open>+inf\<close>, \<open>-inf\<close>, \<open>nan\<close>). Arithmetic on finite values is exact:
  rounding, overflow, the sign of zero and the final narrowing of \<open>sigma[i]\<close> to
  \<open>float32\<close> are not modelled. The special values follow IEEE-754, because NumPy
  raises no exception on them (the notebook also silences the warnings), so they are
  what the code returns on degenerate input. A property that compares two rounded
  results for equality, such as the invariance of the estimate under a rescaling of the
  prices, depends on the rounding and is not stated in this model.
\<close>

subsection \<open>Data model\<close>

text \<open>One row of the data frame \<open>S_all\<close> (columns \<open>Date\<close> and \<open>Adj Close\<close>); the frame is the list of
  its rows, and its index is the default \<open>RangeIndex\<close>, so a row's label is its position.
  The prices read from the file are finite numbers of either sign.\<close>

record row =
  Date :: string
  Adj_Close :: real

type_synonym dataframe = "row list"

text \<open>The only exception the cell can raise: \<open>.index[0]\<close> on an empty selection.\<close>

datatype error = IndexError

datatype npfloat = Fin real | PInf | NInf | NaN

subsection \<open>NumPy arithmetic with the IEEE special values\<close>

fun inf_of_sign :: "real \<Rightarrow> npfloat" where
  "inf_of_sign s = (if 0 < s then PInf else if s < 0 then NInf else NaN)"

fun sign_of :: "npfloat \<Rightarrow> real" where
  "sign_of (Fin x) = sgn x"
| "sign_of PInf = 1"
| "sign_of NInf = - 1"
| "sign_of NaN = 0"

fun fneg :: "npfloat \<Rightarrow> npfloat" where
  "fneg (Fin x) = Fin (- x)"
| "fneg PInf = NInf"
| "fneg NInf = PInf"
| "fneg NaN = NaN"

fun fadd :: "npfloat \<Rightarrow> npfloat \<Rightarrow> npfloat" where
  "fadd (Fin x) (Fin y) = Fin (x + y)"
| "fadd NaN b = NaN"
| "fadd a NaN = NaN"
| "fadd PInf NInf = NaN"
| "fadd NInf PInf = NaN"
| "fadd PInf b = PInf"
| "fadd NInf b = NInf"
| "fadd (Fin x) b = b"

definition fsub :: "npfloat \<Rightarrow> npfloat \<Rightarrow> npfloat" where
  "fsub a b = fadd a (fneg b)"

fun fmul :: "npfloat \<Rightarrow> npfloat \<Rightarrow> npfloat" where
  "fmul (Fin x) (Fin y) = Fin (x * y)"
| "fmul NaN b = NaN"
| "fmul a NaN = NaN"
| "fmul a b = inf_of_sign (sign_of a * sign_of b)"

fun fdiv :: "npfloat \<Rightarrow> npfloat \<Rightarrow> npfloat" where
  "fdiv (Fin x) (Fin y) = (if y \<noteq> 0 then Fin (x / y) else inf_of_sign x)"
| "fdiv NaN b = NaN"
| "fdiv a NaN = NaN"
| "fdiv (Fin x) b = Fin 0"
| "fdiv a (Fin y) = inf_of_sign (sign_of a * (if 0 \<le> y then 1 else - 1))"
| "fdiv a b = NaN"

fun fsqrt :: "npfloat \<Rightarrow> npfloat" where
  "fsqrt (Fin x) = (if 0 \<le> x then Fin (sqrt x) else NaN)"
| "fsqrt PInf = PInf"
| "fsqrt NInf = NaN"
| "fsqrt NaN = NaN"

text \<open>\<open>np.log\<close> on a finite float: \<open>log(0) = -inf\<close> and \<open>log(x) = nan\<close> for \<open>x < 0\<close>.\<close>

definition np_log :: "real \<Rightarrow> npfloat" where
  "np_log x = (if 0 < x then Fin (ln x) else if x = 0 then NInf else NaN)"

text \<open>\<open>np.sqrt(dt)\<close> on the Python float \<open>dt\<close>. A real number has one zero, which stands
  for \<open>+0.0\<close>. The float \<open>-0.0\<close> is outside the model: its square root is \<open>-0.0\<close>, and a
  positive standard deviation divided by it is \<open>-inf\<close>. What is proved about the sign of
  the estimate is therefore stated for \<open>dt \<noteq> 0\<close> only.\<close>

definition np_sqrt :: "real \<Rightarrow> npfloat" where
  "np_sqrt x = fsqrt (Fin x)"

text \<open>The sum reduction of an array, starting from \<open>0.0\<close>. Without rounding the order of
  the additions does not matter.\<close>

primrec fsum :: "npfloat list \<Rightarrow> npfloat" where
  "fsum [] = Fin 0"
| "fsum (x # xs) = fadd x (fsum xs)"

text \<open>
  \<open>np.std(a)\<close> with the default \<open>ddof = 0\<close>, as NumPy computes it:
  \<^verbatim>\<open>
  arrmean = sum(a) / n;  x = a - arrmean;  x = x * x;  ret = sum(x) / n;  sqrt(ret)
  \<close>
  where \<open>n\<close> is the number of items. On the empty array both divisions are \<open>0.0 / 0\<close>.
\<close>

definition np_std :: "npfloat list \<Rightarrow> npfloat" where
  "np_std a =
     (let n = Fin (real (length a));
          arrmean = fdiv (fsum a) n;
          x = map (\<lambda>v. fsub v arrmean) a;
          x2 = map (\<lambda>v. fmul v v) x;
          ret = fdiv (fsum x2) n
      in fsqrt ret)"

subsection \<open>Selecting rows\<close>

text \<open>A bound of a Python slice on a sequence of \<open>n\<close> items: a negative bound counts from
  the end, and every bound is clipped to \<open>0 .. n\<close>.\<close>

definition slice_bound :: "int \<Rightarrow> nat \<Rightarrow> nat" where
  "slice_bound k n = (if k < 0 then nat (max (k + int n) 0) else min (nat k) n)"

text \<open>\<open>df.iloc[a:b, ]\<close>: the rows at the positions of the Python slice \<open>a:b\<close>.\<close>

definition iloc :: "'a list \<Rightarrow> int \<Rightarrow> int \<Rightarrow> 'a list" where
  "iloc df a b =
     (let n = length df; s = slice_bound a n; e = slice_bound b n
      in take (e - s) (drop s df))"

text \<open>\<open>S_all.loc[S_all['Date'] == date].index[0]\<close>: the label of the first selected row;
  \<open>IndexError\<close> when no row is selected.\<close>

definition date_index :: "dataframe \<Rightarrow> string \<Rightarrow> error + nat" where
  "date_index S date =
     (case filter (\<lambda>k. Date (S ! k) = date) [0..<length S] of
        [] \<Rightarrow> Inl IndexError
      | k # _ \<Rightarrow> Inr k)"

subsection \<open>The body of the loop\<close>

text \<open>\<open>list(S_all.iloc[date_index-M_value:date_index, ]['Adj Close'])\<close>\<close>

definition history_data :: "dataframe \<Rightarrow> string \<Rightarrow> int \<Rightarrow> error + real list" where
  "history_data S date M_value =
     (case date_index S date of
        Inl e \<Rightarrow> Inl e
      | Inr di \<Rightarrow> Inr (map Adj_Close (iloc S (int di - M_value) (int di))))"

definition log_history_data :: "real list \<Rightarrow> npfloat list" where
  "log_history_data h = map np_log h"

text \<open>\<open>log_history_data[1:] - log_history_data[:-1]\<close>, element by element.\<close>

definition log_return :: "npfloat list \<Rightarrow> npfloat list" where
  "log_return l = map2 fsub (drop 1 l) (butlast l)"

text \<open>The value stored in \<open>sigma[i]\<close>, from the window's prices.\<close>

definition sigma_of_history :: "real list \<Rightarrow> real \<Rightarrow> npfloat" where
  "sigma_of_history h dt = fdiv (np_std (log_return (log_history_data h))) (np_sqrt dt)"

text \<open>One iteration of the inner loop: the estimate for one date.\<close>

definition estimate_sigma :: "dataframe \<Rightarrow> string \<Rightarrow> int \<Rightarrow> real \<Rightarrow> error + npfloat" where
  "estimate_sigma S date M_value dt =
     (case history_data S date M_value of
        Inl e \<Rightarrow> Inl e
      | Inr h \<Rightarrow> Inr (sigma_of_history h dt))"

subsection \<open>The loop over the valuation dates\<close>

text \<open>The inner \<open>for i, date in enumerate(actual_dates)\<close>: the state is the array \<open>sigma\<close>
  and the counter \<open>i\<close>; an exception in the body ends the loop. A store outside the
  array would raise \<open>IndexError\<close>.\<close>

fun sigma_loop_from :: "dataframe \<Rightarrow> int \<Rightarrow> real \<Rightarrow> nat \<Rightarrow> string list \<Rightarrow> npfloat list
    \<Rightarrow> error + npfloat list" where
  "sigma_loop_from S M_value dt i [] sigma = Inr sigma"
| "sigma_loop_from S M_value dt i (date # rest) sigma =
     (case estimate_sigma S date M_value dt of
        Inl e \<Rightarrow> Inl e
      | Inr v \<Rightarrow>
          if i < length sigma
          then sigma_loop_from S M_value dt (Suc i) rest (sigma[i := v])
          else Inl IndexError)"

text \<open>\<open>sigma = np.zeros(len(actual_dates))\<close> followed by the loop.\<close>

definition sigma_loop :: "dataframe \<Rightarrow> string list \<Rightarrow> int \<Rightarrow> real \<Rightarrow> error + npfloat list" where
  "sigma_loop S actual_dates M_value dt =
     sigma_loop_from S M_value dt 0 actual_dates (replicate (length actual_dates) (Fin 0))"

subsection \<open>The specification's vocabulary\<close>

text \<open>The valuation date \<open>d\<close> is present in the series, and \<open>i\<close> is its (first) position.\<close>

definition date_at :: "dataframe \<Rightarrow> string \<Rightarrow> nat \<Rightarrow> bool" where
  "date_at S d i \<longleftrightarrow> i < length S \<and> Date (S ! i) = d \<and> (\<forall>j<i. Date (S ! j) \<noteq> d)"

text \<open>The prices at the \<open>M\<close> positions \<open>i - M .. i - 1\<close>.\<close>

definition window_prices :: "dataframe \<Rightarrow> nat \<Rightarrow> nat \<Rightarrow> real list" where
  "window_prices S i M = map (\<lambda>k. Adj_Close (S ! k)) [i - M..<i]"

text \<open>The specification's log-returns \<open>r\<^sub>k = ln p\<^sub>k\<^sub>+\<^sub>1 - ln p\<^sub>k\<close> over consecutive pairs.\<close>

definition spec_log_returns :: "real list \<Rightarrow> real list" where
  "spec_log_returns p = map (\<lambda>k. ln (p ! Suc k) - ln (p ! k)) [0..<length p - 1]"

definition spec_mean :: "real list \<Rightarrow> real" where
  "spec_mean r = sum_list r / real (length r)"

text \<open>The population standard deviation: the squared deviations are divided by the
  count of the returns, not by the count minus one.\<close>

definition spec_population_std :: "real list \<Rightarrow> real" where
  "spec_population_std r =
     sqrt (sum_list (map (\<lambda>x. (x - spec_mean r)\<^sup>2) r) / real (length r))"

text \<open>The comparison \<open>v >= 0\<close> on a float: false on \<open>nan\<close>.\<close>

definition fge0 :: "npfloat \<Rightarrow> bool" where
  "fge0 v = (case v of Fin x \<Rightarrow> 0 \<le> x | PInf \<Rightarrow> True | NInf \<Rightarrow> False | NaN \<Rightarrow> False)"

subsection \<open>Example series\<close>

definition ex_S :: dataframe where
  "ex_S = [\<lparr>Date = ''2023-08-07'', Adj_Close = 1\<rparr>, \<lparr>Date = ''2023-08-08'', Adj_Close = 2\<rparr>,
           \<lparr>Date = ''2023-08-09'', Adj_Close = 1\<rparr>, \<lparr>Date = ''2023-08-10'', Adj_Close = 5\<rparr>]"

text \<open>The same prices as \<open>ex_S\<close> on irregularly spaced dates.\<close>

definition ex_gaps :: dataframe where
  "ex_gaps = [\<lparr>Date = ''2023-01-02'', Adj_Close = 1\<rparr>, \<lparr>Date = ''2023-03-17'', Adj_Close = 2\<rparr>,
           \<lparr>Date = ''2023-08-04'', Adj_Close = 1\<rparr>, \<lparr>Date = ''2023-08-10'', Adj_Close = 5\<rparr>]"

definition ex_flat :: dataframe where
  "ex_flat = [\<lparr>Date = ''2023-08-07'', Adj_Close = 4300\<rparr>,
           \<lparr>Date = ''2023-08-08'', Adj_Close = 4300\<rparr>,
           \<lparr>Date = ''2023-08-09'', Adj_Close = 4300\<rparr>,
           \<lparr>Date = ''2023-08-10'', Adj_Close = 4321\<rparr>]"

text \<open>Series with a zero and with a negative price.\<close>

definition ex_zero :: dataframe where
  "ex_zero = [\<lparr>Date = ''2023-08-07'', Adj_Close = 1\<rparr>, \<lparr>Date = ''2023-08-08'', Adj_Close = 0\<rparr>,
           \<lparr>Date = ''2023-08-09'', Adj_Close = 1\<rparr>, \<lparr>Date = ''2023-08-10'', Adj_Close = 5\<rparr>]"

definition ex_neg :: dataframe where
  "ex_neg = [\<lparr>Date = ''2023-08-07'', Adj_Close = 3\<rparr>, \<lparr>Date = ''2023-08-08'', Adj_Close = - 2\<rparr>,
           \<lparr>Date = ''2023-08-09'', Adj_Close = 4\<rparr>, \<lparr>Date = ''2023-08-10'', Adj_Close = 5\<rparr>]"

section \<open>Properties of the row selection\<close>

lemma date_index_found: "date_at S d i \<Longrightarrow> date_index S d = Inr i"
proof -
  assume a: "date_at S d i"
  then have i: "i < length S" and di: "Date (S ! i) = d" and nj: "\<forall>j<i. Date (S ! j) \<noteq> d"
    by (auto simp: date_at_def)
  have "[0..<length S] = [0..<i] @ [i..<length S]"
    using i by (metis le_add_diff_inverse less_imp_le_nat upt_add_eq_append zero_le)
  then have parts: "[0..<length S] = [0..<i] @ i # [Suc i..<length S]"
    using i by (simp add: upt_conv_Cons)
  have "filter (\<lambda>k. Date (S ! k) = d) [0..<i] = []"
    using nj by (auto simp: filter_empty_conv)
  then have "filter (\<lambda>k. Date (S ! k) = d) [0..<length S] =
      i # filter (\<lambda>k. Date (S ! k) = d) [Suc i..<length S]"
    using di by (simp add: parts)
  then show ?thesis by (simp add: date_index_def)
qed

lemma date_index_absent: "d \<notin> Date ` set S \<Longrightarrow> date_index S d = Inl IndexError"
proof -
  assume a: "d \<notin> Date ` set S"
  have "filter (\<lambda>k. Date (S ! k) = d) [0..<length S] = []"
    using a by (auto simp: filter_empty_conv)
  then show ?thesis by (simp add: date_index_def)
qed

lemma iloc_window:
  "M \<le> i \<Longrightarrow> i \<le> length S \<Longrightarrow> iloc S (int i - int M) (int i) = take M (drop (i - M) S)"
  by (auto simp: iloc_def slice_bound_def Let_def min_def nat_diff_distrib)

lemma take_drop_nth:
  "i \<le> length S \<Longrightarrow> M \<le> i \<Longrightarrow>
    map f (take M (drop (i - M) S)) = map (\<lambda>k. f (S ! k)) [i - M..<i]"
  by (auto simp: list_eq_iff_nth_eq)

lemma history_data_window:
  assumes "date_at S d i" "M \<le> i"
  shows "history_data S d (int M) = Inr (window_prices S i M)"
proof -
  have i: "i \<le> length S" using assms(1) by (simp add: date_at_def)
  show ?thesis
    by (simp add: history_data_def date_index_found [OF assms(1)] iloc_window [OF assms(2) i]
        take_drop_nth [OF i assms(2)] window_prices_def)
qed

lemma estimate_sigma_window:
  assumes "date_at S d i" "M \<le> i"
  shows "estimate_sigma S d (int M) dt = Inr (sigma_of_history (window_prices S i M) dt)"
  by (simp add: estimate_sigma_def history_data_window [OF assms])

lemma window_prices_length: "M \<le> i \<Longrightarrow> length (window_prices S i M) = M"
  by (simp add: window_prices_def)

lemma window_prices_cong:
  "\<forall>k. i - M \<le> k \<and> k < i \<longrightarrow> Adj_Close (S' ! k) = Adj_Close (S ! k)
    \<Longrightarrow> window_prices S' i M = window_prices S i M"
  by (simp add: window_prices_def)

text \<open>With fewer than \<open>M\<close> rows before position \<open>i\<close> the start \<open>i - M\<close> of the slice is
  negative and counts from the end of the frame.\<close>

lemma iloc_short:
  assumes "i < M" "i \<le> length S"
  shows "iloc S (int i - int M) (int i) =
    take (i - (length S + i - M)) (drop (length S + i - M) S)"
proof -
  have s: "slice_bound (int i - int M) (length S) = length S + i - M"
    using assms by (simp add: slice_bound_def)
  have e: "slice_bound (int i) (length S) = i"
    using assms by (simp add: slice_bound_def)
  show ?thesis
    by (simp add: iloc_def Let_def s e)
qed

lemma take_drop_from:
  "i \<le> length S \<Longrightarrow> map f (take (i - s) (drop s S)) = map (\<lambda>k. f (S ! k)) [s..<i]"
  by (auto simp: list_eq_iff_nth_eq)

lemma history_data_short:
  assumes "date_at S d i" "i < M"
  shows "history_data S d (int M) = Inr (map (\<lambda>k. Adj_Close (S ! k)) [length S + i - M..<i])"
proof -
  have i: "i \<le> length S" using assms(1) by (simp add: date_at_def)
  show ?thesis
    by (simp add: history_data_def date_index_found [OF assms(1)] iloc_short [OF assms(2) i]
        take_drop_from [OF i])
qed

section \<open>Properties of the arithmetic on finite values\<close>

lemma fsum_Fin: "fsum (map Fin xs) = Fin (sum_list xs)"
  by (induction xs) auto

lemma log_history_data_pos:
  "\<forall>p\<in>set h. 0 < p \<Longrightarrow> log_history_data h = map (\<lambda>p. Fin (ln p)) h"
  by (simp add: log_history_data_def np_log_def)

lemma log_return_length: "length (log_return l) = length l - 1"
  by (simp add: log_return_def)

lemma log_return_nth:
  "k < length l - 1 \<Longrightarrow> log_return l ! k = fsub (l ! Suc k) (l ! k)"
  by (simp add: log_return_def nth_butlast)

lemma log_return_Fin:
  "log_return (map (\<lambda>p. Fin (ln p)) h) = map Fin (spec_log_returns h)"
  by (rule nth_equalityI)
    (simp_all add: log_return_length log_return_nth spec_log_returns_def fsub_def)

lemma np_std_Fin:
  assumes "r \<noteq> []"
  shows "np_std (map Fin r) = Fin (spec_population_std r)"
proof -
  have n: "real (length r) \<noteq> 0" using assms by simp
  have m: "fdiv (fsum (map Fin r)) (Fin (real (length r))) = Fin (spec_mean r)"
    using n by (simp add: fsum_Fin spec_mean_def)
  have sq: "map (\<lambda>v. fmul v v) (map (\<lambda>v. fsub v (Fin (spec_mean r))) (map Fin r))
      = map Fin (map (\<lambda>x. (x - spec_mean r)\<^sup>2) r)"
    by (simp add: fsub_def power2_eq_square)
  have nonneg: "0 \<le> sum_list (map (\<lambda>x. (x - spec_mean r)\<^sup>2) r) / real (length r)"
    by (intro divide_nonneg_nonneg sum_list_nonneg) auto
  have "np_std (map Fin r) =
      fsqrt (fdiv (fsum (map Fin (map (\<lambda>x. (x - spec_mean r)\<^sup>2) r))) (Fin (real (length r))))"
    unfolding np_std_def Let_def length_map m sq ..
  also have "\<dots> = Fin (spec_population_std r)"
    unfolding fsum_Fin using n nonneg by (simp add: spec_population_std_def)
  finally show ?thesis .
qed

lemma spec_log_returns_length: "length (spec_log_returns p) = length p - 1"
  by (simp add: spec_log_returns_def)

lemma sigma_of_history_valid:
  assumes "2 \<le> length h" "\<forall>p\<in>set h. 0 < p" "0 < dt"
  shows "sigma_of_history h dt = Fin (spec_population_std (spec_log_returns h) / sqrt dt)"
proof -
  have "length (spec_log_returns h) \<noteq> 0"
    using assms(1) by (simp add: spec_log_returns_length)
  then have ne: "spec_log_returns h \<noteq> []"
    by auto
  show ?thesis
    using assms(3)
    by (simp add: sigma_of_history_def log_history_data_pos [OF assms(2)] log_return_Fin
        np_std_Fin [OF ne] np_sqrt_def)
qed

lemma spec_log_returns_const:
  assumes "\<forall>p\<in>set h. p = c"
  shows "spec_log_returns h = replicate (length h - 1) 0"
proof (rule nth_equalityI)
  show "length (spec_log_returns h) = length (replicate (length h - 1) (0::real))"
    by (simp add: spec_log_returns_def)
next
  fix k assume "k < length (spec_log_returns h)"
  then have k: "Suc k < length h" "k < length h"
    by (simp_all add: spec_log_returns_def)
  then have "h ! Suc k = c" "h ! k = c"
    using assms by simp_all
  then show "spec_log_returns h ! k = replicate (length h - 1) 0 ! k"
    using k by (simp add: spec_log_returns_def)
qed

lemma spec_population_std_zero: "spec_population_std (replicate n 0) = 0"
  by (simp add: spec_population_std_def spec_mean_def sum_list_replicate)

section \<open>Properties of the special values\<close>

lemma fadd_NaN_right: "fadd a NaN = NaN"
  by (cases a) simp_all

lemma fadd_Fin_D: "fadd a b = Fin s \<Longrightarrow> (\<exists>x. a = Fin x) \<and> (\<exists>y. b = Fin y)"
  by (cases a; cases b) simp_all

lemma fadd_PInf_D: "fadd a b = PInf \<Longrightarrow> a = PInf \<or> b = PInf"
  by (cases a; cases b) simp_all

lemma fadd_NInf_D: "fadd a b = NInf \<Longrightarrow> a = NInf \<or> b = NInf"
  by (cases a; cases b) simp_all

lemma fsub_Fin_D: "fsub a b = Fin s \<Longrightarrow> (\<exists>x. a = Fin x) \<and> (\<exists>y. b = Fin y)"
  by (cases a; cases b) (simp_all add: fsub_def)

lemma fsum_NaN: "NaN \<in> set a \<Longrightarrow> fsum a = NaN"
  by (induction a) (auto simp: fadd_NaN_right)

lemma fsum_Fin_D: "fsum a = Fin s \<Longrightarrow> v \<in> set a \<Longrightarrow> \<exists>x. v = Fin x"
  by (induction a arbitrary: s) (auto dest!: fadd_Fin_D)

lemma fsum_PInf_D: "fsum a = PInf \<Longrightarrow> PInf \<in> set a"
  by (induction a) (auto dest!: fadd_PInf_D)

lemma fsum_NInf_D: "fsum a = NInf \<Longrightarrow> NInf \<in> set a"
  by (induction a) (auto dest!: fadd_NInf_D)

lemma np_std_empty: "np_std [] = NaN"
  by (simp add: np_std_def)

text \<open>One item that is not finite makes the standard deviation \<open>nan\<close>: the mean is then
  not finite, and the deviation of some item from it is \<open>nan\<close>.\<close>

lemma np_std_not_finite:
  assumes v: "v \<in> set a" and nf: "\<forall>x. v \<noteq> Fin x"
  shows "np_std a = NaN"
proof -
  define n where "n = real (length a)"
  define m where "m = fdiv (fsum a) (Fin n)"
  have n: "0 < n" using v by (cases a) (simp_all add: n_def)
  have s: "\<forall>x. fsum a \<noteq> Fin x"
    using fsum_Fin_D [OF _ v] nf by blast
  have "NaN \<in> set (map (\<lambda>v. fsub v m) a)"
  proof (cases "fsum a")
    case (Fin x)
    then show ?thesis using s by simp
  next
    case PInf
    then have "m = PInf" using n by (simp add: m_def)
    moreover have "PInf \<in> set a" using PInf by (rule fsum_PInf_D)
    ultimately show ?thesis by (force simp: fsub_def)
  next
    case NInf
    then have "m = NInf" using n by (simp add: m_def)
    moreover have "NInf \<in> set a" using NInf by (rule fsum_NInf_D)
    ultimately show ?thesis by (force simp: fsub_def)
  next
    case NaN
    then have "m = NaN" by (simp add: m_def)
    then have "fsub v m = NaN" by (simp add: fsub_def fadd_NaN_right)
    then show ?thesis using v by force
  qed
  then have "NaN \<in> set (map (\<lambda>v. fmul v v) (map (\<lambda>v. fsub v m) a))"
    by force
  then have "fsum (map (\<lambda>v. fmul v v) (map (\<lambda>v. fsub v m) a)) = NaN"
    by (rule fsum_NaN)
  then show ?thesis
    by (simp add: np_std_def Let_def m_def n_def)
qed

lemma np_log_Fin_D: "np_log p = Fin x \<Longrightarrow> 0 < p"
  by (simp add: np_log_def split: if_splits)

lemma log_return_not_finite:
  assumes p: "p \<in> set h" and np: "p \<le> 0" and len: "2 \<le> length h"
  shows "\<exists>v\<in>set (log_return (log_history_data h)). \<forall>x. v \<noteq> Fin x"
proof -
  let ?l = "log_history_data h"
  from p obtain j where j: "j < length h" and hj: "h ! j = p"
    by (auto simp: in_set_conv_nth)
  have lj: "\<forall>x. ?l ! j \<noteq> Fin x"
    using j hj np np_log_Fin_D [of p] by (auto simp: log_history_data_def)
  define k where "k = (if Suc j < length h then j else j - 1)"
  have k: "k < length ?l - 1" and jk: "j = k \<or> j = Suc k"
    using j len by (auto simp: k_def log_history_data_def)
  have "\<forall>x. log_return ?l ! k \<noteq> Fin x"
    using jk lj fsub_Fin_D [of "?l ! Suc k" "?l ! k"] by (auto simp: log_return_nth [OF k])
  moreover have "log_return ?l ! k \<in> set (log_return ?l)"
    using k by (simp add: log_return_length)
  ultimately show ?thesis by blast
qed

lemma sigma_of_history_nonpositive:
  assumes "p \<in> set h" and "p \<le> 0"
  shows "sigma_of_history h dt = NaN"
proof -
  have "np_std (log_return (log_history_data h)) = NaN"
  proof (cases "2 \<le> length h")
    case True
    from log_return_not_finite [OF assms True] show ?thesis
      using np_std_not_finite by blast
  next
    case False
    then have "length (log_return (log_history_data h)) = 0"
      by (simp add: log_return_length log_history_data_def)
    then show ?thesis by (simp add: np_std_empty)
  qed
  then show ?thesis by (simp add: sigma_of_history_def)
qed

lemma sigma_of_history_empty: "sigma_of_history [] dt = NaN"
  by (simp add: sigma_of_history_def log_history_data_def log_return_def np_std_empty)

lemma fsqrt_range: "fsqrt a = NaN \<or> fge0 (fsqrt a)"
  by (cases a) (auto simp: fge0_def)

lemma fdiv_range:
  assumes "a = NaN \<or> fge0 a" "b = NaN \<or> fge0 b"
  shows "fdiv a b = NaN \<or> fge0 (fdiv a b)"
  using assms by (cases a; cases b) (auto simp: fge0_def sgn_if)

lemma sigma_of_history_range: "sigma_of_history h dt = NaN \<or> fge0 (sigma_of_history h dt)"
  unfolding sigma_of_history_def np_std_def np_sqrt_def Let_def
  by (intro fdiv_range fsqrt_range)

section \<open>The loop\<close>

text \<open>A run of the loop from counter \<open>i\<close> keeps the array's length and the cells before
  \<open>i\<close>, and stores in cell \<open>i + k\<close> the estimate for the \<open>k\<close>-th remaining date.\<close>

lemma sigma_loop_from_result:
  "sigma_loop_from S M dt i ds sigma = Inr sig \<Longrightarrow>
    length sig = length sigma
    \<and> (\<forall>k<length ds. estimate_sigma S (ds ! k) M dt = Inr (sig ! (i + k)))
    \<and> (\<forall>j<i. sig ! j = sigma ! j)"
proof (induction ds arbitrary: i sigma)
  case Nil
  then show ?case by simp
next
  case (Cons date rest)
  from Cons.prems obtain v where v: "estimate_sigma S date M dt = Inr v"
    and i: "i < length sigma"
    and rec: "sigma_loop_from S M dt (Suc i) rest (sigma[i := v]) = Inr sig"
    by (auto split: sum.splits if_splits)
  from Cons.IH [OF rec] have len: "length sig = length sigma"
    and rest: "\<forall>k<length rest. estimate_sigma S (rest ! k) M dt = Inr (sig ! (Suc i + k))"
    and kept: "\<forall>j<Suc i. sig ! j = (sigma[i := v]) ! j"
    by simp_all
  have here: "sig ! i = v" using kept i by simp
  have "estimate_sigma S ((date # rest) ! k) M dt = Inr (sig ! (i + k))"
    if "k < length (date # rest)" for k
    using that v here rest by (cases k) simp_all
  moreover have "\<forall>j<i. sig ! j = sigma ! j"
    using kept by (metis less_Suc_eq nat_neq_iff nth_list_update_neq)
  ultimately show ?case using len by blast
qed

section \<open>The examples\<close>

lemma ex_S_date_at: "date_at ex_S ''2023-08-10'' 3"
  by (simp add: date_at_def ex_S_def numeral_3_eq_3 less_Suc_eq)

lemma ex_gaps_date_at: "date_at ex_gaps ''2023-08-10'' 3"
  by (simp add: date_at_def ex_gaps_def numeral_3_eq_3 less_Suc_eq)

lemma ex_S_window_3: "window_prices ex_S 3 3 = [1, 2, 1]"
  by (simp add: window_prices_def ex_S_def numeral_3_eq_3 upt_rec)

lemma ex_S_window_2: "window_prices ex_S 3 2 = [2, 1]"
  by (simp add: window_prices_def ex_S_def numeral_3_eq_3 upt_rec)

lemma ex_S_std: "spec_population_std (spec_log_returns [1, 2, 1]) = ln 2"
  by (simp add: spec_population_std_def spec_mean_def spec_log_returns_def upt_rec
      numeral_2_eq_2)

lemma ex_S_date_at_2: "date_at ex_S ''2023-08-09'' 2"
  by (simp add: date_at_def ex_S_def numeral_2_eq_2 less_Suc_eq)

lemma ex_zero_date_at: "date_at ex_zero ''2023-08-10'' 3"
  by (simp add: date_at_def ex_zero_def numeral_3_eq_3 less_Suc_eq)

lemma ex_neg_date_at: "date_at ex_neg ''2023-08-10'' 3"
  by (simp add: date_at_def ex_neg_def numeral_3_eq_3 less_Suc_eq)

lemma ex_S_sigma_3: "sigma_of_history [1, 2, 1] (1/252) = Fin (ln 2 * sqrt 252)"
proof -
  have "sigma_of_history [1, 2, 1] (1/252) =
      Fin (spec_population_std (spec_log_returns [1, 2, 1]) / sqrt (1/252))"
    by (rule sigma_of_history_valid) simp_all
  then show ?thesis by (simp add: ex_S_std real_sqrt_divide)
qed

lemma ex_S_estimate_10:
  "estimate_sigma ex_S ''2023-08-10'' 3 (1/252) = Inr (Fin (ln 2 * sqrt 252))"
  using estimate_sigma_window [OF ex_S_date_at, of 3 "1/252"]
  by (simp add: ex_S_window_3 ex_S_sigma_3)

lemma ex_S_estimate_09: "estimate_sigma ex_S ''2023-08-09'' 3 (1/252) = Inr NaN"
  using history_data_short [OF ex_S_date_at_2, of 3]
  by (simp add: estimate_sigma_def ex_S_def sigma_of_history_empty)

lemma ex_zero_history: "history_data ex_zero ''2023-08-10'' 3 = Inr [1, 0, 1]"
  using history_data_window [OF ex_zero_date_at, of 3]
  by (simp add: window_prices_def ex_zero_def numeral_3_eq_3 upt_rec)

lemma ex_neg_history: "history_data ex_neg ''2023-08-10'' 2 = Inr [- 2, 4]"
  using history_data_window [OF ex_neg_date_at, of 2]
  by (simp add: window_prices_def ex_neg_def numeral_3_eq_3 upt_rec)

lemma ex_S_history_7: "history_data ex_S ''2023-08-10'' 7 = Inr [1, 2, 1]"
  using history_data_short [OF ex_S_date_at, of 7]
  by (simp add: ex_S_def numeral_3_eq_3 upt_rec)

lemma ex_S_estimate_one: "estimate_sigma ex_S ''2023-08-10'' 1 (1/252) = Inr NaN"
proof -
  have "window_prices ex_S 3 1 = [1]"
    by (simp add: window_prices_def ex_S_def numeral_3_eq_3 upt_rec)
  then have "estimate_sigma ex_S ''2023-08-10'' 1 (1/252) = Inr (sigma_of_history [1] (1/252))"
    using estimate_sigma_window [OF ex_S_date_at, of 1 "1/252"] by simp
  then show ?thesis
    by (simp add: sigma_of_history_def log_history_data_def log_return_def np_std_empty)
qed

lemma ex_S_loop_2:
  "sigma_loop ex_S [''2023-08-09'', ''2023-08-10''] 3 (1/252) =
    Inr [NaN, Fin (ln 2 * sqrt 252)]"
  by (simp add: sigma_loop_def ex_S_estimate_09 ex_S_estimate_10 numeral_2_eq_2)

lemma ex_S_loop_1:
  "sigma_loop ex_S [''2023-08-10''] 3 (1/252) = Inr [Fin (ln 2 * sqrt 252)]"
  by (simp add: sigma_loop_def ex_S_estimate_10)

section \<open>The volatility estimate on valid input\<close>

text \<open>
  C1. Let the valuation date be present in the series at position \<open>i\<close> with at least \<open>M\<close>
  observations before it, \<open>M \<ge> 2\<close>, \<open>dt > 0\<close> and positive prices in the window. Then the
  estimate is the population standard deviation (the divisor is the number of returns) of
  the \<open>M - 1\<close> log-returns \<open>ln p\<^sub>k\<^sub>+\<^sub>1 - ln p\<^sub>k\<close> of the \<open>M\<close> window prices, divided by
  \<open>sqrt dt\<close>.
\<close>

theorem estimate_sigma_population_std:
  assumes "date_at S d i" and "M \<le> i" and "2 \<le> M" and "0 < dt"
    and "\<forall>k. i - M \<le> k \<and> k < i \<longrightarrow> 0 < Adj_Close (S ! k)"
  shows "estimate_sigma S d (int M) dt =
    Inr (Fin (spec_population_std (spec_log_returns (window_prices S i M)) / sqrt dt))"
proof -
  have len: "2 \<le> length (window_prices S i M)"
    using assms(2,3) by (simp add: window_prices_length)
  have pos: "\<forall>p\<in>set (window_prices S i M). 0 < p"
    using assms(5) by (auto simp: window_prices_def)
  show ?thesis
    by (simp add: estimate_sigma_window [OF assms(1,2)]
        sigma_of_history_valid [OF len pos assms(4)])
qed

theorem estimate_sigma_population_std_witness:
  "estimate_sigma ex_S ''2023-08-10'' 3 (1/252) = Inr (Fin (ln 2 * sqrt 252))"
proof -
  have "\<forall>k. 3 - 3 \<le> k \<and> k < 3 \<longrightarrow> 0 < Adj_Close (ex_S ! k)"
    by (simp add: ex_S_def numeral_3_eq_3 less_Suc_eq)
  from estimate_sigma_population_std [OF ex_S_date_at _ _ _ this, of "1/252"] show ?thesis
    by (simp add: ex_S_window_3 ex_S_std real_sqrt_divide)
qed

text \<open>
  C2. For a valuation date at position \<open>i\<close> with \<open>i \<ge> M\<close>, the prices read are exactly
  those at the \<open>M\<close> positions \<open>i - M .. i - 1\<close>, the estimate is computed from them, and
  the price of the valuation date itself has no influence on the estimate.
\<close>

theorem estimate_sigma_uses_preceding_window:
  assumes "date_at S d i" and "M \<le> i"
  shows "history_data S d (int M) = Inr (map (\<lambda>k. Adj_Close (S ! k)) [i - M..<i])
    \<and> length [i - M..<i] = M
    \<and> estimate_sigma S d (int M) dt =
        Inr (sigma_of_history (map (\<lambda>k. Adj_Close (S ! k)) [i - M..<i]) dt)
    \<and> (\<forall>p. estimate_sigma (S[i := (S ! i)\<lparr>Adj_Close := p\<rparr>]) d (int M) dt =
          estimate_sigma S d (int M) dt)"
proof -
  have own: "estimate_sigma (S[i := (S ! i)\<lparr>Adj_Close := p\<rparr>]) d (int M) dt =
      estimate_sigma S d (int M) dt" for p
  proof -
    let ?S' = "S[i := (S ! i)\<lparr>Adj_Close := p\<rparr>]"
    have "date_at ?S' d i"
      using assms(1) by (simp add: date_at_def)
    moreover have "window_prices ?S' i M = window_prices S i M"
      by (rule window_prices_cong) simp
    ultimately show ?thesis
      by (simp add: estimate_sigma_window [OF _ assms(2)] assms(1))
  qed
  show ?thesis
    using history_data_window [OF assms] estimate_sigma_window [OF assms, of dt] assms(2) own
    by (simp add: window_prices_def)
qed

theorem estimate_sigma_uses_preceding_window_witness:
  "history_data ex_S ''2023-08-10'' 2 = Inr [2, 1]
   \<and> estimate_sigma (ex_S[3 := (ex_S ! 3)\<lparr>Adj_Close := 77\<rparr>]) ''2023-08-10'' 2 (1/252) =
       estimate_sigma ex_S ''2023-08-10'' 2 (1/252)"
  using estimate_sigma_uses_preceding_window [OF ex_S_date_at, of 2 "1/252"] ex_S_window_2
  by (simp add: window_prices_def)

text \<open>
  C5. A valuation date that is not the \<open>Date\<close> of any row makes the estimation fail: the
  selection is empty and \<open>.index[0]\<close> raises \<open>IndexError\<close>, the only exception of this
  code, which is therefore its date-not-found error.
\<close>

theorem estimate_sigma_absent_date:
  assumes "d \<notin> Date ` set S"
  shows "estimate_sigma S d M dt = Inl IndexError"
  by (simp add: estimate_sigma_def history_data_def date_index_absent [OF assms])

theorem estimate_sigma_absent_date_witness:
  "estimate_sigma ex_S ''2023-08-12'' 2 (1/252) = Inl IndexError"
  using estimate_sigma_absent_date [of "''2023-08-12''" ex_S 2 "1/252"]
  by (simp add: ex_S_def)

text \<open>
  C6. When the \<open>M\<close> window prices all equal one positive constant (with \<open>M \<ge> 2\<close> and
  \<open>dt > 0\<close>, as the estimator requires), the estimate is exactly \<open>0\<close>.
\<close>

theorem estimate_sigma_constant_prices:
  assumes "date_at S d i" and "M \<le> i" and "2 \<le> M" and "0 < dt" and "0 < c"
    and "\<forall>k. i - M \<le> k \<and> k < i \<longrightarrow> Adj_Close (S ! k) = c"
  shows "estimate_sigma S d (int M) dt = Inr (Fin 0)"
proof -
  have len: "2 \<le> length (window_prices S i M)"
    using assms(2,3) by (simp add: window_prices_length)
  have eq: "\<forall>p\<in>set (window_prices S i M). p = c"
    using assms(6) by (auto simp: window_prices_def)
  have pos: "\<forall>p\<in>set (window_prices S i M). 0 < p"
    using eq assms(5) by auto
  show ?thesis
    by (simp add: estimate_sigma_window [OF assms(1,2)]
        sigma_of_history_valid [OF len pos assms(4)]
        spec_log_returns_const [OF eq] spec_population_std_zero)
qed

theorem estimate_sigma_constant_prices_witness:
  "estimate_sigma ex_flat ''2023-08-10'' 3 (1/252) = Inr (Fin 0)"
  using estimate_sigma_constant_prices [of ex_flat "''2023-08-10''" 3 3 "1/252" 4300]
  by (simp add: date_at_def ex_flat_def numeral_3_eq_3 less_Suc_eq)

text \<open>
  C10. For a fixed position \<open>i\<close> of the valuation date and a fixed \<open>M \<le> i\<close>, the estimate
  depends only on the \<open>Adj Close\<close> values of the window rows and on \<open>dt\<close>: two series that
  agree on these prices give the same estimate, whatever dates their rows carry.
\<close>

theorem estimate_sigma_ignores_dates:
  assumes "date_at S d i" and "date_at S' d i" and "M \<le> i"
    and "\<forall>k. i - M \<le> k \<and> k < i \<longrightarrow> Adj_Close (S' ! k) = Adj_Close (S ! k)"
  shows "estimate_sigma S' d (int M) dt = estimate_sigma S d (int M) dt"
  by (simp add: estimate_sigma_window [OF assms(1,3)] estimate_sigma_window [OF assms(2,3)]
      window_prices_cong [OF assms(4)])

theorem estimate_sigma_ignores_dates_witness:
  "map Date ex_gaps \<noteq> map Date ex_S
   \<and> estimate_sigma ex_gaps ''2023-08-10'' 3 (1/252) =
       estimate_sigma ex_S ''2023-08-10'' 3 (1/252)"
proof -
  have "\<forall>k. 3 - 3 \<le> k \<and> k < 3 \<longrightarrow> Adj_Close (ex_gaps ! k) = Adj_Close (ex_S ! k)"
    by (simp add: ex_S_def ex_gaps_def numeral_3_eq_3 less_Suc_eq)
  from estimate_sigma_ignores_dates [OF ex_S_date_at ex_gaps_date_at _ this, of "1/252"]
  show ?thesis
    by (simp add: ex_S_def ex_gaps_def)
qed

text \<open>
  C9. The estimation is deterministic: the value that a run of the loop stores for a
  valuation date is the value of the function \<open>estimate_sigma\<close> at the series, the date,
  \<open>M\<close> and \<open>dt\<close>. So two runs on the same series, \<open>M\<close> and \<open>dt\<close> store the same \<open>\<sigma>\<close> for
  the same date, whatever the other dates of the runs and the position of the date among
  them; no other state and no random source enters.
\<close>

theorem sigma_loop_deterministic:
  assumes "sigma_loop S ds M dt = Inr sig" and "sigma_loop S ds' M dt = Inr sig'"
    and "k < length ds" and "k' < length ds'" and "ds ! k = ds' ! k'"
  shows "sig ! k = sig' ! k' \<and> estimate_sigma S (ds ! k) M dt = Inr (sig ! k)"
proof -
  have a: "estimate_sigma S (ds ! k) M dt = Inr (sig ! k)"
    using sigma_loop_from_result [OF assms(1) [unfolded sigma_loop_def]] assms(3) by simp
  have b: "estimate_sigma S (ds' ! k') M dt = Inr (sig' ! k')"
    using sigma_loop_from_result [OF assms(2) [unfolded sigma_loop_def]] assms(4) by simp
  show ?thesis using a b assms(5) by simp
qed

theorem sigma_loop_deterministic_witness:
  "sigma_loop ex_S [''2023-08-09'', ''2023-08-10''] 3 (1/252) = Inr [NaN, Fin (ln 2 * sqrt 252)]
   \<and> sigma_loop ex_S [''2023-08-10''] 3 (1/252) = Inr [Fin (ln 2 * sqrt 252)]
   \<and> [NaN, Fin (ln 2 * sqrt 252)] ! 1 = [Fin (ln 2 * sqrt 252)] ! 0
   \<and> estimate_sigma ex_S ''2023-08-10'' 3 (1/252) = Inr (Fin (ln 2 * sqrt 252))"
  using sigma_loop_deterministic [OF ex_S_loop_2 ex_S_loop_1, of 1 0] ex_S_loop_2 ex_S_loop_1
  by simp

section \<open>The volatility estimate on degenerate input\<close>

text \<open>
  C3, as the specification states it, fails: with fewer than \<open>M\<close> observations before the
  valuation date no error is raised. In \<open>ex_S\<close> three observations precede
  \<open>2023-08-10\<close>; with \<open>M = 7\<close> the estimation returns the estimate of these three.
\<close>

theorem estimate_sigma_short_history_no_error:
  "date_index ex_S ''2023-08-10'' = Inr 3
   \<and> history_data ex_S ''2023-08-10'' 7 = Inr [1, 2, 1]
   \<and> estimate_sigma ex_S ''2023-08-10'' 7 (1/252) = Inr (Fin (ln 2 * sqrt 252))"
  by (simp add: date_index_found [OF ex_S_date_at] estimate_sigma_def ex_S_history_7
      ex_S_sigma_3)

text \<open>
  C3, amended. For a valuation date at position \<open>i\<close> of a series of \<open>n\<close> rows with fewer
  than \<open>M\<close> observations before it (\<open>i < M\<close>), the estimation raises no error: it reads the
  rows that the slice \<open>[i - M : i]\<close> with its negative start selects, the positions
  \<open>max (n + i - M) 0 .. i - 1\<close>, and returns the value computed from their prices. When
  \<open>M \<le> n\<close> no row is selected and the result is \<open>nan\<close>.
\<close>

theorem estimate_sigma_short_history:
  assumes "date_at S d i" and "i < M"
  shows "history_data S d (int M) = Inr (map (\<lambda>k. Adj_Close (S ! k)) [length S + i - M..<i])
    \<and> estimate_sigma S d (int M) dt =
        Inr (sigma_of_history (map (\<lambda>k. Adj_Close (S ! k)) [length S + i - M..<i]) dt)
    \<and> (M \<le> length S \<longrightarrow> estimate_sigma S d (int M) dt = Inr NaN)"
  by (simp add: estimate_sigma_def history_data_short [OF assms] sigma_of_history_empty)

theorem estimate_sigma_short_history_witness:
  "history_data ex_S ''2023-08-09'' 3 = Inr []
   \<and> estimate_sigma ex_S ''2023-08-09'' 3 (1/252) = Inr NaN"
  using estimate_sigma_short_history [OF ex_S_date_at_2, of 3 "1/252"]
  by (auto simp: ex_S_def)

text \<open>
  C4, as the specification states it, fails: a window with a non-positive price raises no
  error. In \<open>ex_zero\<close> the window of \<open>2023-08-10\<close> with \<open>M = 3\<close> holds the price \<open>0\<close>, and
  the estimation returns \<open>nan\<close>.
\<close>

theorem estimate_sigma_nonpositive_price_no_error:
  "history_data ex_zero ''2023-08-10'' 3 = Inr [1, 0, 1]
   \<and> estimate_sigma ex_zero ''2023-08-10'' 3 (1/252) = Inr NaN"
  using sigma_of_history_nonpositive [of 0 "[1, 0, 1]" "1/252"]
  by (simp add: estimate_sigma_def ex_zero_history)

text \<open>
  C4, amended. For every window that contains a non-positive price, the estimation raises
  no error and returns \<open>nan\<close>.
\<close>

theorem estimate_sigma_nonpositive_price:
  assumes "history_data S d M = Inr h" and "p \<in> set h" and "p \<le> 0"
  shows "estimate_sigma S d M dt = Inr NaN"
  by (simp add: estimate_sigma_def assms(1) sigma_of_history_nonpositive [OF assms(2,3)])

theorem estimate_sigma_nonpositive_price_witness:
  "estimate_sigma ex_neg ''2023-08-10'' 2 (1/252) = Inr NaN"
  using estimate_sigma_nonpositive_price [OF ex_neg_history, of "- 2" "1/252"] by simp

text \<open>
  C8, as the specification states it, fails: the estimation returns a value that does not
  satisfy \<open>\<sigma> \<ge> 0\<close>. In \<open>ex_S\<close> with \<open>M = 1\<close> the window of \<open>2023-08-10\<close> holds one price,
  there is no log-return, and the value returned is \<open>nan\<close>, for which the comparison
  \<open>\<sigma> \<ge> 0\<close> is false.
\<close>

theorem estimate_sigma_nan_not_nonneg:
  "estimate_sigma ex_S ''2023-08-10'' 1 (1/252) = Inr NaN \<and> \<not> fge0 NaN"
  by (simp add: ex_S_estimate_one fge0_def)

text \<open>
  C8, amended. For every \<open>dt\<close> other than zero, every value that the estimation returns
  is \<open>nan\<close> or satisfies \<open>\<sigma> \<ge> 0\<close>.
\<close>

theorem estimate_sigma_nonneg_or_nan:
  assumes "estimate_sigma S d M dt = Inr v" and "dt \<noteq> 0"
  shows "v = NaN \<or> fge0 v"
  using assms(1) sigma_of_history_range [of _ dt]
  by (auto simp: estimate_sigma_def split: sum.splits)

theorem estimate_sigma_nonneg_or_nan_witness:
  "estimate_sigma ex_S ''2023-08-10'' 3 (1/252) = Inr (Fin (ln 2 * sqrt 252))
   \<and> fge0 (Fin (ln 2 * sqrt 252))"
  using estimate_sigma_nonneg_or_nan [OF ex_S_estimate_10] ex_S_estimate_10 by simp

end
